theory Spec2Isabelle
  imports Complex_Main "HOL-Library.Word" "HOL-Library.Sublist"
begin

text \<open>
  A model of the web client of the persona chat application: the API service
  (\<open>services/api.ts\<close>), the chat view (\<open>components/ChatInterface.tsx\<close>) and the
  ingestion view (\<open>components/DataIngestion.tsx\<close>); and of the ingestion endpoint they
  talk to, as far as the table schema and the specification describe it. A component is a
  record of its state hooks and of what it has done to the outside (requests, toasts,
  timers); a handler is a function on that record. An \<open>async\<close> handler is cut at its
  \<open>await\<close> into the part that runs at once and the continuations for the fulfilled and
  the rejected request.
\<close>

section \<open>JavaScript values used by the web client\<close>

text \<open>
  A JavaScript string is a sequence of 16-bit code units: \<open>length\<close> counts code units
  and \<open>slice\<close> cuts between them. \<open>js\<close> embeds an ASCII literal of the source.
\<close>

type_synonym jsstring = "16 word list"

definition js :: "string \<Rightarrow> jsstring" where
  "js s = map (\<lambda>c. of_nat (of_char c)) s"

text \<open>
  \<open>String.prototype.trim\<close> removes the ECMAScript white space and line terminator code
  units from both ends: TAB, LF, VT, FF, CR, SP, NBSP, U+1680, U+2000 to U+200A, U+2028,
  U+2029, U+202F, U+205F, U+3000 and U+FEFF.
\<close>

definition isWhiteSpace :: "16 word \<Rightarrow> bool" where
  "isWhiteSpace c =
     (c = 0x09 \<or> c = 0x0A \<or> c = 0x0B \<or> c = 0x0C \<or> c = 0x0D \<or> c = 0x20 \<or> c = 0xA0
      \<or> c = 0x1680 \<or> (0x2000 \<le> c \<and> c \<le> 0x200A) \<or> c = 0x2028 \<or> c = 0x2029
      \<or> c = 0x202F \<or> c = 0x205F \<or> c = 0x3000 \<or> c = 0xFEFF)"

definition trim :: "jsstring \<Rightarrow> jsstring" where
  "trim s = rev (dropWhile isWhiteSpace (rev (dropWhile isWhiteSpace s)))"

text \<open>
  \<open>Number.prototype.toString\<close> on an integer of magnitude below \<open>10^21\<close>: its decimal
  digits, with a minus sign. That is the range of the clock readings and of chunk counts;
  beyond it, and on a number that is not an integer, JavaScript prints another notation,
  which this function does not give.
\<close>

fun show_nat :: "nat \<Rightarrow> jsstring" where
  "show_nat n =
     (if n < 10 then [of_nat (48 + n)] else show_nat (n div 10) @ [of_nat (48 + n mod 10)])"

declare show_nat.simps [simp del]

definition show_int :: "int \<Rightarrow> jsstring" where
  "show_int k = (if k < 0 then 0x2D # show_nat (nat (- k)) else show_nat (nat k))"

text \<open>
  The JSON bodies the client posts. An object literal keeps its keys in source order; a
  property whose value is \<open>undefined\<close> is left out of the serialised body, which
  \<open>optional\<close> models. The number literals \<open>0.7\<close> and \<open>1000\<close> are kept as the
  decimals the source writes.
\<close>

datatype json =
    JString jsstring
  | JNumber rat
  | JBool bool
  | JArray "json list"
  | JObject "(string \<times> json) list"

definition optional :: "string \<Rightarrow> json option \<Rightarrow> (string \<times> json) list" where
  "optional k v = (case v of None \<Rightarrow> [] | Some x \<Rightarrow> [(k, x)])"

definition property :: "json \<Rightarrow> string \<Rightarrow> json option" where
  "property j k = (case j of JObject kvs \<Rightarrow> map_of kvs k | _ \<Rightarrow> None)"

datatype Request = POST (path: string) (body: json)

datatype Toast = toast_error jsstring | toast_success jsstring


section \<open>services/api.ts\<close>

text \<open>
  Each function returns the HTTP request it issues through \<open>apiClient.post\<close>. An optional
  argument that the caller leaves out is \<open>None\<close>.
\<close>

definition api_chat :: "jsstring \<Rightarrow> jsstring option \<Rightarrow> Request" where
  "api_chat message persona =
     POST ''/api/chat''
       (JObject ([(''message'', JString message)]
          @ optional ''persona_id'' (map_option JString persona)
          @ [(''use_context'', JBool True),
             (''temperature'', JNumber (7 / 10)),
             (''max_tokens'', JNumber 1000)]))"

definition ingestData :: "jsstring \<Rightarrow> jsstring option \<Rightarrow> Request" where
  "ingestData txt persona =
     POST ''/api/ingest''
       (JObject ([(''text'', JString txt)]
          @ optional ''persona_id'' (map_option JString persona)))"

definition sendMessage :: "json list \<Rightarrow> jsstring option \<Rightarrow> Request" where
  "sendMessage messages personaId =
     POST ''/api/chat''
       (JObject [(''messages'', JArray messages),
          (''persona_id'', JString (case personaId of None \<Rightarrow> js ''default'' | Some p \<Rightarrow> p)),
          (''use_context'', JBool True),
          (''temperature'', JNumber (7 / 10)),
          (''max_tokens'', JNumber 1000)])"

definition ingestText :: "jsstring \<Rightarrow> jsstring option \<Rightarrow> json option \<Rightarrow> Request" where
  "ingestText txt personaId metadata =
     POST ''/api/ingest''
       (JObject ([(''text'', JString txt),
          (''persona_id'', JString (case personaId of None \<Rightarrow> js ''default'' | Some p \<Rightarrow> p))]
          @ optional ''metadata'' metadata))"


section \<open>components/ChatInterface.tsx\<close>

subsection \<open>State\<close>

text \<open>
  A message of the conversation. Its \<open>id\<close> is \<open>msg_id\<close> here, and its \<open>timestamp\<close> is
  in milliseconds.
\<close>

datatype Role = User | Assistant

definition role_string :: "Role \<Rightarrow> jsstring" where
  "role_string r = (case r of User \<Rightarrow> js ''user'' | Assistant \<Rightarrow> js ''assistant'')"

record Message =
  msg_id :: jsstring
  role :: Role
  content :: jsstring
  timestamp :: int

text \<open>
  A timer made by \<open>setInterval\<close> in \<open>typewriterEffect\<close>: the text it reveals, its counter
  \<open>i\<close>, its period in milliseconds, and whether \<open>clearInterval\<close> has been called on it.
\<close>

record Interval =
  iv_text :: jsstring
  iv_i :: nat
  iv_delay :: nat
  iv_cleared :: bool

text \<open>
  A timer made by \<open>setTimeout\<close> in \<open>handleSubmit\<close>: the assistant message id and the
  response text its callback has captured, its delay, and whether it has fired.
\<close>

record Timeout =
  to_id :: jsstring
  to_text :: jsstring
  to_delay :: nat
  to_fired :: bool

text \<open>
  What a component has done to the world outside its React state: the HTTP requests it has
  issued and the toasts it has shown, oldest first.
\<close>

record Effects =
  requests :: "Request list"
  toasts :: "Toast list"

text \<open>
  The four state hooks of the component, its effects, and the timers it has created. A
  handler is the one of the latest render, so the \<open>messages\<close> and \<open>message\<close> it closes
  over are those of the state it runs on.
\<close>

record ChatInterface = Effects +
  message :: jsstring
  messages :: "Message list"
  isLoading :: bool
  streamingContent :: jsstring
  intervals :: "Interval list"
  timeouts :: "Timeout list"

text \<open>The initial values of the state hooks; nothing has been sent, shown or scheduled.\<close>

definition initial :: ChatInterface where
  "initial = \<lparr>requests = [], toasts = [], message = [], messages = [], isLoading = False,
     streamingContent = [], intervals = [], timeouts = []\<rparr>"

subsection \<open>The typewriter\<close>

text \<open>
  \<open>typewriterEffect (text, callback)\<close> sets \<open>i\<close> to 0 and starts an interval of 8 ms.
  \<open>interval_callback\<close> is the function the interval runs at each firing; the callback
  it is given acts on a state \<open>'s\<close>.
\<close>

definition typewriterEffect :: "jsstring \<Rightarrow> Interval" where
  "typewriterEffect txt = \<lparr>iv_text = txt, iv_i = 0, iv_delay = 8, iv_cleared = False\<rparr>"

definition interval_callback ::
  "(jsstring \<Rightarrow> 's \<Rightarrow> 's) \<Rightarrow> Interval \<times> 's \<Rightarrow> Interval \<times> 's" where
  "interval_callback callback = (\<lambda>(timer, s).
     if iv_i timer < length (iv_text timer)
     then (timer\<lparr>iv_i := iv_i timer + 1\<rparr>, callback (take (iv_i timer + 1) (iv_text timer)) s)
     else (timer\<lparr>iv_cleared := True\<rparr>, s))"

text \<open>
  The browser fires an interval again and again until it is cleared; \<open>run_interval\<close>
  is that loop. Its termination proof shows that the firing ends for every text and every
  callback: the counter grows up to the length of the text, and the next firing clears
  the timer.
\<close>

function run_interval ::
  "(jsstring \<Rightarrow> 's \<Rightarrow> 's) \<Rightarrow> Interval \<times> 's \<Rightarrow> Interval \<times> 's" where
  "run_interval callback (timer, s) =
     (if iv_cleared timer then (timer, s)
      else run_interval callback (interval_callback callback (timer, s)))"
  by pat_completeness auto
termination
  by (relation "measure (\<lambda>(callback, timer, s).
        if iv_cleared timer then 0 else Suc (length (iv_text timer) - iv_i timer))")
     (auto simp: interval_callback_def)

declare run_interval.simps [simp del]

subsection \<open>Handlers\<close>

definition setMessage :: "jsstring \<Rightarrow> ChatInterface \<Rightarrow> ChatInterface" where
  "setMessage v st = st\<lparr>message := v\<rparr>"

definition setStreamingContent :: "jsstring \<Rightarrow> ChatInterface \<Rightarrow> ChatInterface" where
  "setStreamingContent v st = st\<lparr>streamingContent := v\<rparr>"

text \<open>The projection \<open>m => ({ role: m.role, content: m.content })\<close> of the payload.\<close>

definition payload_entry :: "Message \<Rightarrow> json" where
  "payload_entry m =
     JObject [(''role'', JString (role_string (role m))), (''content'', JString (content m))]"

text \<open>
  \<open>handleSubmit\<close> up to its \<open>await\<close>. \<open>now\<close> holds the two clock readings it takes,
  \<open>Date.now()\<close> for the id and \<open>new Date()\<close> for the timestamp. \<open>e.preventDefault()\<close>
  acts on the event only and has no counterpart here.
\<close>

definition handleSubmit :: "int \<times> int \<Rightarrow> ChatInterface \<Rightarrow> ChatInterface" where
  "handleSubmit now st =
     (if trim (message st) = [] \<or> isLoading st then st
      else
        let userMessage = \<lparr>msg_id = show_int (fst now), role = User,
                             content = trim (message st), timestamp = snd now\<rparr>;
            nextMessages = messages st @ [userMessage];
            payload = map payload_entry nextMessages
        in st\<lparr>messages := messages st @ [userMessage],
               message := [],
               isLoading := True,
               requests := requests st @ [sendMessage payload (Some (js ''default''))]\<rparr>)"

text \<open>
  The body of the response, as far as the handler reads it: the \<open>message\<close> and
  \<open>response\<close> properties, \<open>None\<close> when absent or null.
\<close>

record ChatResponse =
  resp_message :: "jsstring option"
  resp_response :: "jsstring option"

definition responseText :: "ChatResponse \<Rightarrow> jsstring" where
  "responseText r =
     (case resp_message r of Some m \<Rightarrow> m
      | None \<Rightarrow> (case resp_response r of Some t \<Rightarrow> t | None \<Rightarrow> []))"

text \<open>
  The \<open>catch\<close> block followed by \<open>finally\<close>: the request, or the \<open>try\<close> block, threw.
  What \<open>console.error\<close> prints is not part of the model.
\<close>

definition handleSubmit_rejected :: "ChatInterface \<Rightarrow> ChatInterface" where
  "handleSubmit_rejected st =
     st\<lparr>toasts := toasts st @ [toast_error (js ''Failed to send message. Please try again.'')],
        isLoading := False\<rparr>"

text \<open>
  The rest of the \<open>try\<close> block followed by \<open>finally\<close>: the request returned
  \<open>response.data\<close>. A null body makes the property read throw, which the \<open>catch\<close>
  block handles.
\<close>

definition handleSubmit_resolved ::
  "int \<times> int \<Rightarrow> ChatResponse option \<Rightarrow> ChatInterface \<Rightarrow> ChatInterface" where
  "handleSubmit_resolved now response st =
     (case response of
        None \<Rightarrow> handleSubmit_rejected st
      | Some r \<Rightarrow>
          let txt = responseText r;
              assistantMessage = \<lparr>msg_id = show_int (fst now + 1), role = Assistant,
                                    content = [], timestamp = snd now\<rparr>
          in st\<lparr>messages := messages st @ [assistantMessage],
                 streamingContent := [],
                 intervals := intervals st @ [typewriterEffect txt],
                 timeouts := timeouts st @
                   [\<lparr>to_id = msg_id assistantMessage, to_text = txt,
                     to_delay = length txt * 30 + 100, to_fired = False\<rparr>],
                 isLoading := False\<rparr>)"

text \<open>The \<open>k\<close>-th interval fires: its callback is \<open>setStreamingContent\<close>.\<close>

definition interval_fires :: "nat \<Rightarrow> ChatInterface \<Rightarrow> ChatInterface" where
  "interval_fires k st =
     (if k < length (intervals st) \<and> \<not> iv_cleared (intervals st ! k)
      then (case interval_callback setStreamingContent (intervals st ! k, st) of
              (timer, st') \<Rightarrow> st'\<lparr>intervals := (intervals st')[k := timer]\<rparr>)
      else st)"

text \<open>The \<open>k\<close>-th timeout fires, once.\<close>

definition timeout_fires :: "nat \<Rightarrow> ChatInterface \<Rightarrow> ChatInterface" where
  "timeout_fires k st =
     (if k < length (timeouts st) \<and> \<not> to_fired (timeouts st ! k)
      then
        let t = timeouts st ! k
        in st\<lparr>messages := map (\<lambda>msg. if msg_id msg = to_id t
                                       then msg\<lparr>content := to_text t\<rparr> else msg) (messages st),
               streamingContent := [],
               timeouts := (timeouts st)[k := t\<lparr>to_fired := True\<rparr>]\<rparr>
      else st)"

definition handleKeyDown ::
  "jsstring \<Rightarrow> bool \<Rightarrow> int \<times> int \<Rightarrow> ChatInterface \<Rightarrow> ChatInterface" where
  "handleKeyDown key shiftKey now st =
     (if key = js ''Enter'' \<and> \<not> shiftKey then handleSubmit now st else st)"

subsection \<open>What is rendered\<close>

text \<open>The text shown in a message bubble.\<close>

definition displayed :: "ChatInterface \<Rightarrow> Message \<Rightarrow> jsstring" where
  "displayed st msg =
     (if role msg = Assistant \<and> content msg = [] \<and> streamingContent st \<noteq> []
      then streamingContent st else content msg)"

definition input_disabled :: "ChatInterface \<Rightarrow> bool" where
  "input_disabled st = isLoading st"

definition send_disabled :: "ChatInterface \<Rightarrow> bool" where
  "send_disabled st = (trim (message st) = [] \<or> isLoading st)"

text \<open>
  The three quick-action buttons. Each is disabled while \<open>isLoading\<close>, and a disabled
  button does not run its \<open>onClick\<close>.
\<close>

datatype QuickAction = AskAboutMe | LearnFromInsights | JamOnAProblem

definition prompt :: "QuickAction \<Rightarrow> jsstring" where
  "prompt q =
     (case q of
        AskAboutMe \<Rightarrow> js ''Tell me about yourself''
      | LearnFromInsights \<Rightarrow> js ''What insights do you have?''
      | JamOnAProblem \<Rightarrow> js ''Help me solve a problem'')"

definition quick_action_click :: "QuickAction \<Rightarrow> ChatInterface \<Rightarrow> ChatInterface" where
  "quick_action_click q st = (if isLoading st then st else setMessage (prompt q) st)"

subsection \<open>A run of two turns\<close>

text \<open>
  A fresh view in which \<open>hi\<close> is submitted at 1000 ms and answered with \<open>abc\<close> at 2000 ms.
  The interval of the reveal fires at 2008, 2016, 2024 and 2032 ms, the last firing
  clearing it; the timeout of the turn is due at 2000 + 3 * 30 + 100 = 2190 ms and has not
  fired.
\<close>

definition first_turn_revealed :: ChatInterface where
  "first_turn_revealed =
     (interval_fires 0 ^^ 4)
       (handleSubmit_resolved (2000, 2000)
          (Some \<lparr>resp_message = Some (js ''abc''), resp_response = None\<rparr>)
          (handleSubmit (1000, 1000) (setMessage (js ''hi'') initial)))"

text \<open>
  From there \<open>yo\<close> is submitted at 2050 ms and answered with \<open>xy\<close> at 2100 ms, and the
  interval of the second reveal fires for the first time, at 2108 ms. No timer of the first
  turn fires in between.
\<close>

definition second_turn_first_frame :: ChatInterface where
  "second_turn_first_frame =
     interval_fires 1
       (handleSubmit_resolved (2100, 2100)
          (Some \<lparr>resp_message = Some (js ''xy''), resp_response = None\<rparr>)
          (handleSubmit (2050, 2050) (setMessage (js ''yo'') first_turn_revealed)))"


section \<open>components/DataIngestion.tsx\<close>

subsection \<open>State\<close>

record IngestResult =
  success :: bool
  result_message :: jsstring

text \<open>
  The state hooks \<open>text\<close> (\<open>text_value\<close> here), \<open>isProcessing\<close> and \<open>result\<close> of the
  component, with its effects.
\<close>

record DataIngestion = Effects +
  text_value :: jsstring
  isProcessing :: bool
  result :: "IngestResult option"

text \<open>
  The body of the ingestion response, as far as the handler reads it; a property is
  \<open>None\<close> when absent or null. The counts are taken to be integers of magnitude below
  \<open>10^21\<close>, which \<open>show_int\<close> prints as the template literal does.
\<close>

record IngestData =
  data_chunks_processed :: "int option"
  data_chunksCreated :: "int option"
  data_message :: "jsstring option"

definition ingestion_initial :: DataIngestion where
  "ingestion_initial =
     \<lparr>requests = [], toasts = [], text_value = [], isProcessing = False, result = None\<rparr>"

subsection \<open>Handlers\<close>

text \<open>\<open>handleIngest\<close> up to its \<open>await\<close>; \<open>selectedPersona\<close> is the component's prop.\<close>

definition handleIngest :: "jsstring \<Rightarrow> DataIngestion \<Rightarrow> DataIngestion" where
  "handleIngest selectedPersona st =
     (if trim (text_value st) = []
      then st\<lparr>toasts := toasts st @ [toast_error (js ''Please enter some text to ingest'')]\<rparr>
      else st\<lparr>isProcessing := True,
              result := None,
              requests := requests st @
                [ingestData (trim (text_value st)) (Some selectedPersona)]\<rparr>)"

text \<open>
  The rest of the \<open>try\<close> block followed by \<open>finally\<close>: the request returned a response
  whose \<open>data\<close> is the argument (\<open>None\<close> when the response has no body).
\<close>

definition handleIngest_resolved :: "IngestData option \<Rightarrow> DataIngestion \<Rightarrow> DataIngestion" where
  "handleIngest_resolved data st =
     (let chunksProcessed =
            (case Option.bind data data_chunks_processed of
               Some n \<Rightarrow> n
             | None \<Rightarrow> (case Option.bind data data_chunksCreated of Some n \<Rightarrow> n | None \<Rightarrow> 0));
          serverMessage = Option.bind data data_message;
          fallback = js ''Successfully processed '' @ show_int chunksProcessed
                       @ js '' text chunks into embeddings''
      in st\<lparr>result := Some \<lparr>success = True,
                 result_message =
                   (case serverMessage of
                      Some m \<Rightarrow> if m = [] then fallback else m
                    | None \<Rightarrow> fallback)\<rparr>,
             toasts := toasts st @ [toast_success (js ''Data ingested successfully!'')],
             text_value := [],
             isProcessing := False\<rparr>)"

text \<open>
  The \<open>catch\<close> block followed by \<open>finally\<close>: the request threw; \<open>detail\<close> is
  \<open>error.response?.data?.detail\<close>.
\<close>

definition handleIngest_rejected :: "jsstring option \<Rightarrow> DataIngestion \<Rightarrow> DataIngestion" where
  "handleIngest_rejected detail st =
     (let errorMessage =
            (case detail of
               Some d \<Rightarrow> if d = [] then js ''Failed to ingest data'' else d
             | None \<Rightarrow> js ''Failed to ingest data'')
      in st\<lparr>result := Some \<lparr>success = False, result_message = errorMessage\<rparr>,
             toasts := toasts st @ [toast_error errorMessage],
             isProcessing := False\<rparr>)"

subsection \<open>Controls\<close>

text \<open>
  The X button is rendered only when \<open>text\<close> is non-empty and is disabled while
  processing; the Clear Text button is disabled when \<open>text\<close> is empty or while processing.
  The textarea is disabled while processing. The Ingest Data button is disabled while
  processing or when the trimmed text is empty. A control that is not rendered or is
  disabled does not run its handler.
\<close>

definition click_X :: "DataIngestion \<Rightarrow> DataIngestion" where
  "click_X st = (if text_value st \<noteq> [] \<and> \<not> isProcessing st then st\<lparr>text_value := []\<rparr> else st)"

definition click_ClearText :: "DataIngestion \<Rightarrow> DataIngestion" where
  "click_ClearText st =
     (if text_value st = [] \<or> isProcessing st then st else st\<lparr>text_value := []\<rparr>)"

definition textarea_change :: "jsstring \<Rightarrow> DataIngestion \<Rightarrow> DataIngestion" where
  "textarea_change v st = (if isProcessing st then st else st\<lparr>text_value := v\<rparr>)"

definition click_IngestData :: "jsstring \<Rightarrow> DataIngestion \<Rightarrow> DataIngestion" where
  "click_IngestData selectedPersona st =
     (if isProcessing st \<or> trim (text_value st) = [] then st
      else handleIngest selectedPersona st)"


section \<open>The ingestion endpoint\<close>

text \<open>
  A row of the table \<open>discovery-flow.persona.embeddings\<close>, column by column as the
  schema declares it. The embedding is an array of floating-point numbers, kept abstract
  as \<open>'v\<close>; \<open>created_at\<close> is a timestamp in milliseconds.
\<close>

record 'v EmbeddingChunk =
  row_id :: jsstring
  row_text :: jsstring
  embedding :: 'v
  metadata :: "json option"
  created_at :: int
  persona_id :: jsstring
  chunk_index :: int

text \<open>
  Modelled from the spec: the error taxonomy of the backend, whose code is missing.
\<close>

datatype error = ValidationError | ProviderError | StorageError | ConflictError

text \<open>
  Modelled from the spec: the external services behind the ingestion endpoint, which the
  sources do not contain. The embedding provider turns a chunk into a vector or fails; the
  vector store accepts a write or fails. The chunking policy, the id generator, the clock
  and the wording of the reply are left open by the spec and are parameters here.
\<close>

record 'v Services =
  chunker :: "jsstring \<Rightarrow> jsstring list"
  embed :: "jsstring \<Rightarrow> 'v option"
  storage_up :: bool
  new_id :: "nat \<Rightarrow> jsstring"
  clock :: int
  reply :: "nat \<Rightarrow> jsstring"

text \<open>
  Modelled from the spec: one chunking policy for the ingestion endpoint, whose code is
  missing. The spec leaves the policy open and names fixed-size character windows as a
  default; this is that default, cutting the text into windows of \<open>w\<close> code units, the
  last one shorter. The endpoint below takes its policy as a parameter; this one serves as
  an instance.
\<close>

function split_chunks :: "nat \<Rightarrow> jsstring \<Rightarrow> jsstring list" where
  "split_chunks w s = (if w = 0 \<or> s = [] then [] else take w s # split_chunks w (drop w s))"
  by pat_completeness auto
termination
  by (relation "measure (\<lambda>(w, s). length s)") auto

declare split_chunks.simps [simp del]

text \<open>
  Modelled from the spec: the success reply of the ingestion endpoint,
  \<open>{ chunks_processed, message }\<close>.
\<close>

record IngestReply =
  chunks_processed :: nat
  reply_message :: jsstring

text \<open>
  Modelled from the spec: the rows of one ingestion, whose code is missing. The chunks are
  taken in order, each with its embedding, and a counter that starts where the caller says
  and grows by one per chunk gives the \<open>chunk_index\<close>.
\<close>

fun chunk_rows ::
  "'v Services \<Rightarrow> jsstring \<Rightarrow> json option \<Rightarrow> nat \<Rightarrow> (jsstring \<times> 'v) list
     \<Rightarrow> 'v EmbeddingChunk list" where
  "chunk_rows sv persona meta i [] = []"
| "chunk_rows sv persona meta i ((c, v) # rest) =
     \<lparr>row_id = new_id sv i, row_text = c, embedding = v, metadata = meta,
       created_at = clock sv, persona_id = persona, chunk_index = int i\<rparr>
     # chunk_rows sv persona meta (Suc i) rest"

text \<open>
  Modelled from the spec: the handler of \<open>POST /api/ingest\<close>, whose code is missing. It
  fails with \<open>ValidationError\<close> on empty or whitespace-only text, splits the text into
  chunks, asks the provider for one embedding per chunk (\<open>ProviderError\<close> when a call
  fails), and writes one row per chunk, \<open>chunk_index\<close> being the 0-based position of the
  chunk (\<open>StorageError\<close> when the write fails). It returns the reply and the store; a
  failed ingestion leaves the store as it was.
\<close>

definition ingest ::
  "'v Services \<Rightarrow> 'v EmbeddingChunk list \<Rightarrow> jsstring \<Rightarrow> jsstring \<Rightarrow> json option
     \<Rightarrow> (error + IngestReply) \<times> 'v EmbeddingChunk list" where
  "ingest sv store txt persona meta =
     (if trim txt = [] then (Inl ValidationError, store)
      else
        let chunks = chunker sv txt
        in case those (map (embed sv) chunks) of
             None \<Rightarrow> (Inl ProviderError, store)
           | Some vectors \<Rightarrow>
               let rows = chunk_rows sv persona meta 0 (zip chunks vectors)
               in if storage_up sv
                  then (Inr \<lparr>chunks_processed = length rows,
                              reply_message = reply sv (length rows)\<rparr>,
                        store @ rows)
                  else (Inl StorageError, store))"

text \<open>
  Modelled from the spec: a stand-in for the services, as a test would stub them: windows
  of 8 code units, an embedding for every chunk, a store that accepts every write.
\<close>

definition stub :: "unit Services" where
  "stub = \<lparr>chunker = split_chunks 8, embed = (\<lambda>c. Some ()), storage_up = True,
            new_id = show_nat, clock = 0, reply = (\<lambda>n. js ''ok'')\<rparr>"


section \<open>Properties of the chat view\<close>

subsection \<open>Auxiliary facts\<close>

lemma trim_empty_iff: "trim s = [] \<longleftrightarrow> (\<forall>c\<in>set s. isWhiteSpace c)"
proof
  assume "trim s = []"
  then have "\<forall>c\<in>set (dropWhile isWhiteSpace s). isWhiteSpace c"
    by (simp add: trim_def dropWhile_eq_Nil_conv)
  then have "dropWhile isWhiteSpace s = []"
    by (metis hd_dropWhile hd_in_set)
  then show "\<forall>c\<in>set s. isWhiteSpace c"
    by (simp add: dropWhile_eq_Nil_conv)
next
  assume "\<forall>c\<in>set s. isWhiteSpace c"
  then have d: "dropWhile isWhiteSpace s = []"
    by (simp add: dropWhile_eq_Nil_conv)
  show "trim s = []"
    unfolding trim_def d by simp
qed

lemma trim_hi: "trim (js ''hi'') = js ''hi''"
  by (simp add: trim_def js_def isWhiteSpace_def)

lemma handleSubmit_ready:
  assumes "trim (message st) \<noteq> []" and "\<not> isLoading st"
  shows "handleSubmit now st =
     st\<lparr>messages := messages st @ [\<lparr>msg_id = show_int (fst now), role = User,
                                       content = trim (message st), timestamp = snd now\<rparr>],
        message := [],
        isLoading := True,
        requests := requests st @
          [sendMessage (map payload_entry (messages st) @
              [JObject [(''role'', JString (js ''user'')),
                        (''content'', JString (trim (message st)))]])
             (Some (js ''default''))]\<rparr>"
  using assms by (simp add: handleSubmit_def Let_def payload_entry_def role_string_def)

lemma handleSubmit_timers:
  "intervals (handleSubmit now st) = intervals st
   \<and> timeouts (handleSubmit now st) = timeouts st
   \<and> streamingContent (handleSubmit now st) = streamingContent st"
  by (simp add: handleSubmit_def Let_def)

lemma resolved_state:
  "handleSubmit_resolved now (Some r) st =
     st\<lparr>messages := messages st @
          [\<lparr>msg_id = show_int (fst now + 1), role = Assistant, content = [],
            timestamp = snd now\<rparr>],
        streamingContent := [],
        intervals := intervals st @ [typewriterEffect (responseText r)],
        timeouts := timeouts st @
          [\<lparr>to_id = show_int (fst now + 1), to_text = responseText r,
            to_delay = length (responseText r) * 30 + 100, to_fired = False\<rparr>],
        isLoading := False\<rparr>"
  by (simp add: handleSubmit_resolved_def Let_def)

text \<open>The facts about the state built for the witnesses: \<open>hi\<close> typed into a fresh view.\<close>

lemma typed_hi:
  "message (setMessage (js ''hi'') initial) = js ''hi''"
  "\<not> isLoading (setMessage (js ''hi'') initial)"
  "messages (setMessage (js ''hi'') initial) = []"
  "requests (setMessage (js ''hi'') initial) = []"
  by (simp_all add: setMessage_def initial_def)

lemma typed_hi_ready: "trim (message (setMessage (js ''hi'') initial)) \<noteq> []"
  unfolding typed_hi trim_hi by (simp add: js_def)

subsection \<open>A failed turn\<close>

text \<open>
  C1, as the code has it: when the chat request fails, \<open>isLoading\<close> returns to false and
  the error toast is shown; no assistant message is added and no reveal timer is started.
  The user message of the failed turn stays at the end of the message list and the input
  field stays cleared. A response with a null body takes the same path.
\<close>

theorem failed_turn_keeps_user_message:
  assumes "trim (message st) \<noteq> []" and "\<not> isLoading st"
  shows "isLoading (handleSubmit_rejected (handleSubmit now st)) = False
    \<and> toasts (handleSubmit_rejected (handleSubmit now st)) =
        toasts st @ [toast_error (js ''Failed to send message. Please try again.'')]
    \<and> messages (handleSubmit_rejected (handleSubmit now st)) =
        messages st @ [\<lparr>msg_id = show_int (fst now), role = User,
                          content = trim (message st), timestamp = snd now\<rparr>]
    \<and> message (handleSubmit_rejected (handleSubmit now st)) = []
    \<and> streamingContent (handleSubmit_rejected (handleSubmit now st)) = streamingContent st
    \<and> intervals (handleSubmit_rejected (handleSubmit now st)) = intervals st
    \<and> timeouts (handleSubmit_rejected (handleSubmit now st)) = timeouts st
    \<and> handleSubmit_resolved now' None (handleSubmit now st) =
        handleSubmit_rejected (handleSubmit now st)"
  by (simp add: handleSubmit_ready [OF assms] handleSubmit_rejected_def
      handleSubmit_resolved_def)

text \<open>
  The witness: \<open>hi\<close> is submitted from a fresh view at time 1000 and the request fails.
\<close>

theorem failed_turn_keeps_user_message_witness:
  "trim (message (setMessage (js ''hi'') initial)) \<noteq> []
   \<and> \<not> isLoading (setMessage (js ''hi'') initial)
   \<and> isLoading (handleSubmit_rejected
        (handleSubmit (1000, 1000) (setMessage (js ''hi'') initial))) = False
   \<and> messages (handleSubmit_rejected
        (handleSubmit (1000, 1000) (setMessage (js ''hi'') initial))) =
       [\<lparr>msg_id = show_int 1000, role = User, content = js ''hi'', timestamp = 1000\<rparr>]"
  using failed_turn_keeps_user_message [OF typed_hi_ready typed_hi(2), of "(1000, 1000)"]
    typed_hi_ready typed_hi(2)
  by (simp only: typed_hi trim_hi) simp

text \<open>
  C1 as stated fails: after the same failed turn the message list is not the one from
  before the submit.
\<close>

theorem failed_turn_not_rolled_back:
  "messages (handleSubmit_rejected (handleSubmit (1000, 1000) (setMessage (js ''hi'') initial)))
     \<noteq> messages (setMessage (js ''hi'') initial)"
  by (simp add: handleSubmit_def handleSubmit_rejected_def setMessage_def initial_def
      Let_def js_def trim_def isWhiteSpace_def)

subsection \<open>The request of a turn\<close>

text \<open>
  C6, as the code has it: both chat functions send \<open>temperature\<close> 0.7, \<open>max_tokens\<close>
  1000 and \<open>use_context\<close> true. \<open>chatAPI.sendMessage\<close> sends \<open>persona_id\<close> "default"
  when the caller gives no persona; \<open>api.chat\<close> forwards the caller's persona as it is,
  so without one its body has no \<open>persona_id\<close>.
\<close>

theorem chat_request_parameters:
  "property (body (sendMessage msgs personaId)) ''temperature'' = Some (JNumber (7 / 10))
   \<and> property (body (sendMessage msgs personaId)) ''max_tokens'' = Some (JNumber 1000)
   \<and> property (body (sendMessage msgs personaId)) ''use_context'' = Some (JBool True)
   \<and> property (body (sendMessage msgs personaId)) ''persona_id'' =
        Some (JString (case personaId of None \<Rightarrow> js ''default'' | Some p \<Rightarrow> p))
   \<and> property (body (api_chat m persona)) ''temperature'' = Some (JNumber (7 / 10))
   \<and> property (body (api_chat m persona)) ''max_tokens'' = Some (JNumber 1000)
   \<and> property (body (api_chat m persona)) ''use_context'' = Some (JBool True)
   \<and> property (body (api_chat m persona)) ''persona_id'' = map_option JString persona"
  by (cases persona) (simp_all add: sendMessage_def api_chat_def property_def optional_def)

text \<open>The witness: both functions called without a persona.\<close>

theorem chat_request_parameters_witness:
  "property (body (sendMessage [] None)) ''persona_id'' = Some (JString (js ''default''))
   \<and> property (body (sendMessage [] None)) ''temperature'' = Some (JNumber (7 / 10))
   \<and> property (body (api_chat (js ''hi'') None)) ''persona_id'' = None
   \<and> property (body (api_chat (js ''hi'') None)) ''max_tokens'' = Some (JNumber 1000)"
  using chat_request_parameters [of "[]" None "js ''hi''" None] by simp

text \<open>
  C6 as stated fails: \<open>api.chat\<close> called without a persona does not send \<open>persona_id\<close>
  "default".
\<close>

theorem api_chat_sends_no_default_persona:
  "property (body (api_chat (js ''hi'') None)) ''persona_id'' \<noteq> Some (JString (js ''default''))"
  by (simp add: api_chat_def property_def optional_def)

text \<open>
  C7: a turn that is sent posts the whole conversation: for every message of the list in
  the state, in order, an object with its role and its content and nothing else, followed
  by such an object for the new user message with the trimmed input, for the persona
  "default".
\<close>

theorem chat_payload_is_full_history:
  assumes "trim (message st) \<noteq> []" and "\<not> isLoading st"
  shows "requests (handleSubmit now st) = requests st @
     [POST ''/api/chat''
        (JObject [(''messages'', JArray
             (map (\<lambda>m. JObject
                     [(''role'', JString (case role m of User \<Rightarrow> js ''user''
                                           | Assistant \<Rightarrow> js ''assistant'')),
                      (''content'', JString (content m))]) (messages st)
              @ [JObject [(''role'', JString (js ''user'')),
                          (''content'', JString (trim (message st)))]])),
           (''persona_id'', JString (js ''default'')),
           (''use_context'', JBool True),
           (''temperature'', JNumber (7 / 10)),
           (''max_tokens'', JNumber 1000)])]"
  by (simp add: handleSubmit_ready [OF assms] sendMessage_def payload_entry_def [abs_def]
      role_string_def)

text \<open>
  The witness: a second turn, \<open>yo\<close> typed with spaces around it, after the turn \<open>hi\<close> that
  was answered with \<open>Doug likes blue.\<close>
\<close>

theorem chat_payload_is_full_history_witness:
  "requests (handleSubmit (3000, 3000)
      (initial\<lparr>message := js '' yo '',
         messages := [\<lparr>msg_id = show_int 1000, role = User, content = js ''hi'',
                         timestamp = 1000\<rparr>,
                      \<lparr>msg_id = show_int 2001, role = Assistant,
                         content = js ''Doug likes blue.'', timestamp = 2000\<rparr>]\<rparr>)) =
     [POST ''/api/chat''
        (JObject [(''messages'', JArray
                      [JObject [(''role'', JString (js ''user'')),
                                (''content'', JString (js ''hi''))],
                       JObject [(''role'', JString (js ''assistant'')),
                                (''content'', JString (js ''Doug likes blue.''))],
                       JObject [(''role'', JString (js ''user'')),
                                (''content'', JString (js ''yo''))]]),
           (''persona_id'', JString (js ''default'')),
           (''use_context'', JBool True),
           (''temperature'', JNumber (7 / 10)),
           (''max_tokens'', JNumber 1000)])]"
proof -
  let ?st = "initial\<lparr>message := js '' yo '',
      messages := [\<lparr>msg_id = show_int 1000, role = User, content = js ''hi'',
                      timestamp = 1000\<rparr>,
                   \<lparr>msg_id = show_int 2001, role = Assistant,
                      content = js ''Doug likes blue.'', timestamp = 2000\<rparr>]\<rparr>"
  have yo: "trim (js '' yo '') = js ''yo''"
    by (simp add: trim_def js_def isWhiteSpace_def)
  have ready: "trim (message ?st) \<noteq> []" "\<not> isLoading ?st"
    by (simp_all add: yo initial_def) (simp add: js_def)
  have "requests ?st = []"
    by (simp add: initial_def)
  with chat_payload_is_full_history [OF ready, of "(3000, 3000)"] show ?thesis
    by (simp add: yo)
qed

subsection \<open>Sending and the quick actions\<close>

text \<open>
  C8: while \<open>isLoading\<close> holds the text input and the Send button are disabled, and a
  submit while \<open>isLoading\<close> holds or with a blank message, by the form or by the Enter key,
  leaves the whole state as it is: no request, no toast, no change of the state hooks.
\<close>

theorem sending_blocks_submit:
  "(isLoading st \<longrightarrow> input_disabled st \<and> send_disabled st)
   \<and> (isLoading st \<or> trim (message st) = [] \<longrightarrow>
        handleSubmit now st = st \<and> handleKeyDown key shiftKey now st = st)"
  by (auto simp add: input_disabled_def send_disabled_def handleSubmit_def handleKeyDown_def)

text \<open>The witness: a view that is sending.\<close>

theorem sending_blocks_submit_witness:
  "input_disabled (initial\<lparr>isLoading := True\<rparr>) \<and> send_disabled (initial\<lparr>isLoading := True\<rparr>)
   \<and> handleSubmit (1000, 1000) (initial\<lparr>isLoading := True\<rparr>) = initial\<lparr>isLoading := True\<rparr>
   \<and> handleKeyDown (js ''Enter'') False (1000, 1000) (initial\<lparr>isLoading := True\<rparr>)
       = initial\<lparr>isLoading := True\<rparr>"
  using sending_blocks_submit [of "initial\<lparr>isLoading := True\<rparr>" "(1000, 1000)"
      "js ''Enter''" False]
  by simp

text \<open>
  C9: a click on a quick-action button changes nothing but the input field, which
  receives the button's prompt (a disabled button changes nothing at all): no request is
  sent, and the message list, the loading flag, the streaming buffer and the timers stay.
\<close>

theorem quick_action_only_prefills:
  "quick_action_click q st = st\<lparr>message := (if isLoading st then message st else prompt q)\<rparr>
   \<and> requests (quick_action_click q st) = requests st
   \<and> toasts (quick_action_click q st) = toasts st
   \<and> messages (quick_action_click q st) = messages st
   \<and> isLoading (quick_action_click q st) = isLoading st
   \<and> streamingContent (quick_action_click q st) = streamingContent st
   \<and> intervals (quick_action_click q st) = intervals st
   \<and> timeouts (quick_action_click q st) = timeouts st"
  by (simp add: quick_action_click_def setMessage_def)

text \<open>The witness: the first button clicked in a fresh view.\<close>

theorem quick_action_only_prefills_witness:
  "quick_action_click AskAboutMe initial = initial\<lparr>message := js ''Tell me about yourself''\<rparr>
   \<and> requests (quick_action_click AskAboutMe initial) = []
   \<and> messages (quick_action_click AskAboutMe initial) = []
   \<and> isLoading (quick_action_click AskAboutMe initial) = False"
  using quick_action_only_prefills [of AskAboutMe initial]
  by (simp add: initial_def prompt_def)


section \<open>Properties of the typewriter\<close>

subsection \<open>One interval, run to its end\<close>

lemma run_interval_from:
  "i \<le> length t \<Longrightarrow>
   run_interval cb (\<lparr>iv_text = t, iv_i = i, iv_delay = d, iv_cleared = False\<rparr>, s) =
     (\<lparr>iv_text = t, iv_i = length t, iv_delay = d, iv_cleared = True\<rparr>,
      fold cb (map (\<lambda>j. take (Suc j) t) [i..<length t]) s)"
proof (induction "length t - i" arbitrary: i s)
  case 0
  then have i: "i = length t" by simp
  show ?case
    by (simp add: i run_interval.simps [of cb] interval_callback_def)
next
  case (Suc n)
  then have lt: "i < length t" and n: "n = length t - Suc i" by simp_all
  have "run_interval cb (\<lparr>iv_text = t, iv_i = i, iv_delay = d, iv_cleared = False\<rparr>, s) =
        run_interval cb (\<lparr>iv_text = t, iv_i = Suc i, iv_delay = d, iv_cleared = False\<rparr>,
          cb (take (Suc i) t) s)"
    using lt by (subst run_interval.simps) (simp add: interval_callback_def)
  also have "\<dots> = (\<lparr>iv_text = t, iv_i = length t, iv_delay = d, iv_cleared = True\<rparr>,
      fold cb (map (\<lambda>j. take (Suc j) t) [Suc i..<length t]) (cb (take (Suc i) t) s))"
    using Suc.hyps(1) [OF n] lt by simp
  finally show ?case
    using lt by (simp add: upt_conv_Cons)
qed

lemma fold_snoc_log: "fold (\<lambda>c log. log @ [c]) xs acc = acc @ xs"
  by (induction xs arbitrary: acc) simp_all

text \<open>
  C10: for every text the interval of \<open>typewriterEffect\<close> stops by itself. Fired until
  it is cleared, it calls its callback on the first \<open>j + 1\<close> code units of the text for
  \<open>j = 0, ..., length text - 1\<close>, in this order and nothing else, and ends with its
  counter at \<open>length text\<close> and cleared. With a callback that records what it is given,
  the record holds exactly \<open>length text\<close> strings.
\<close>

theorem typewriter_terminates:
  "run_interval callback (typewriterEffect txt, s) =
     (\<lparr>iv_text = txt, iv_i = length txt, iv_delay = 8, iv_cleared = True\<rparr>,
      fold callback (map (\<lambda>j. take (Suc j) txt) [0..<length txt]) s)
   \<and> run_interval (\<lambda>c log. log @ [c]) (typewriterEffect txt, []) =
     (\<lparr>iv_text = txt, iv_i = length txt, iv_delay = 8, iv_cleared = True\<rparr>,
      map (\<lambda>j. take (Suc j) txt) [0..<length txt])
   \<and> length (snd (run_interval (\<lambda>c log. log @ [c]) (typewriterEffect txt, []))) = length txt"
  by (simp add: typewriterEffect_def run_interval_from fold_snoc_log)

text \<open>The witness: the text \<open>ok\<close> gives two updates, \<open>o\<close> and \<open>ok\<close>.\<close>

theorem typewriter_terminates_witness:
  "run_interval (\<lambda>c log. log @ [c]) (typewriterEffect (js ''ok''), []) =
     (\<lparr>iv_text = js ''ok'', iv_i = 2, iv_delay = 8, iv_cleared = True\<rparr>, [js ''o'', js ''ok''])"
  using typewriter_terminates [of "\<lambda>c log. log @ [c]" "js ''ok''" "[]"]
  by (simp add: js_def upt_conv_Cons)

subsection \<open>The reveal inside the chat view\<close>

lemma interval_fires_reveal:
  assumes "k < length (intervals st)"
    and "intervals st ! k = \<lparr>iv_text = t, iv_i = j, iv_delay = d, iv_cleared = False\<rparr>"
    and "j < length t"
  shows "interval_fires k st =
     st\<lparr>streamingContent := take (Suc j) t,
        intervals := (intervals st)
          [k := \<lparr>iv_text = t, iv_i = Suc j, iv_delay = d, iv_cleared = False\<rparr>]\<rparr>"
  using assms by (simp add: interval_fires_def interval_callback_def setStreamingContent_def)

lemma interval_fires_clear:
  assumes "k < length (intervals st)"
    and "intervals st ! k = \<lparr>iv_text = t, iv_i = length t, iv_delay = d, iv_cleared = False\<rparr>"
  shows "interval_fires k st =
     st\<lparr>intervals := (intervals st)
          [k := \<lparr>iv_text = t, iv_i = length t, iv_delay = d, iv_cleared = True\<rparr>]\<rparr>"
  using assms by (simp add: interval_fires_def interval_callback_def)

lemma interval_fires_cleared:
  "k < length (intervals st) \<Longrightarrow> iv_cleared (intervals st ! k) \<Longrightarrow> interval_fires k st = st"
  by (simp add: interval_fires_def)

lemma reveal_frames:
  assumes "k < length (intervals st)"
    and "intervals st ! k = \<lparr>iv_text = t, iv_i = 0, iv_delay = d, iv_cleared = False\<rparr>"
    and "streamingContent st = []"
    and "j \<le> length t"
  shows "(interval_fires k ^^ j) st =
     st\<lparr>streamingContent := take j t,
        intervals := (intervals st)
          [k := \<lparr>iv_text = t, iv_i = j, iv_delay = d, iv_cleared = False\<rparr>]\<rparr>"
  using assms(4)
proof (induction j)
  case 0
  have "(intervals st)[k := \<lparr>iv_text = t, iv_i = 0, iv_delay = d, iv_cleared = False\<rparr>]
      = intervals st"
    using assms(2) by (metis list_update_id)
  then show ?case using assms(3) by simp
next
  case (Suc j)
  then have j: "j < length t" and IH: "(interval_fires k ^^ j) st =
     st\<lparr>streamingContent := take j t,
        intervals := (intervals st)
          [k := \<lparr>iv_text = t, iv_i = j, iv_delay = d, iv_cleared = False\<rparr>]\<rparr>" by simp_all
  show ?case
    using assms(1) j
    by (simp add: IH interval_fires_reveal [where t = t and j = j and d = d])
qed

lemma reveal_complete:
  assumes "k < length (intervals st)"
    and "intervals st ! k = \<lparr>iv_text = t, iv_i = 0, iv_delay = d, iv_cleared = False\<rparr>"
    and "streamingContent st = []"
  shows "(interval_fires k ^^ Suc (length t)) st =
     st\<lparr>streamingContent := t,
        intervals := (intervals st)
          [k := \<lparr>iv_text = t, iv_i = length t, iv_delay = d, iv_cleared = True\<rparr>]\<rparr>"
  using assms(1)
  by (simp add: reveal_frames [OF assms, of "length t"]
      interval_fires_clear [where t = t and d = d])

text \<open>
  In any state, a pending timeout that fires leaves every message carrying its id with
  the response text it has captured.
\<close>

lemma timeout_fires_content:
  assumes "k < length (timeouts st)" and "\<not> to_fired (timeouts st ! k)"
    and "m \<in> set (messages (timeout_fires k st))"
    and "msg_id m = to_id (timeouts st ! k)"
  shows "content m = to_text (timeouts st ! k)"
proof -
  let ?f = "\<lambda>msg. if msg_id msg = to_id (timeouts st ! k)
              then msg\<lparr>content := to_text (timeouts st ! k)\<rparr> else msg"
  from assms(1,2) have "messages (timeout_fires k st) = map ?f (messages st)"
    by (simp add: timeout_fires_def Let_def)
  with assms(3) have "m \<in> ?f ` set (messages st)"
    by simp
  then obtain m' where "m = ?f m'"
    by blast
  with assms(4) show ?thesis
    by (cases "msg_id m' = to_id (timeouts st ! k)") simp_all
qed

text \<open>
  The delays order the timers of one turn: the firing that clears the interval is due
  before the timeout that writes the content.
\<close>

lemma reveal_due_before_timeout:
  "iv_delay (typewriterEffect (responseText r)) * Suc (length (responseText r))
     \<le> to_delay (last (timeouts (handleSubmit_resolved now (Some r) st)))"
  by (simp add: resolved_state typewriterEffect_def)

text \<open>
  C3, as the code has it: the reveal works on the complete response text, which is the
  \<open>message\<close> property of the response body, else its \<open>response\<close> property, else the empty
  string. Submitting starts no timer and leaves the streaming buffer alone; the interval
  is created by the continuation that holds the response, over that whole text, with its
  counter at 0. In any state of the view, a firing of a running interval over that text
  with counter \<open>i\<close> below its length writes the first \<open>i + 1\<close> code units of the text into
  the streaming buffer and moves the counter to \<open>i + 1\<close>; and a pending timeout of the turn
  that fires leaves every message with the id of the assistant message with the response
  text as content; that timeout holds the whole text and is due after 30 ms per code unit
  and 100 ms more. When the timers of the turn fire one after the other and nothing else
  happens in between, the streaming buffer after \<open>j\<close> firings of the interval (\<open>j\<close> up to
  the length of the text), which is what the bubble of the new assistant message shows, is
  the prefix of the response of length \<open>j\<close>; once the interval has cleared itself and the
  timeout has fired, the assistant message has the response text as its content, and that
  is what its bubble shows.
\<close>

theorem reveal_is_cosmetic:
  fixes st :: ChatInterface and r :: ChatResponse and now now' :: "int \<times> int"
  defines "sending \<equiv> handleSubmit now st"
  defines "full \<equiv> (case resp_message r of Some m \<Rightarrow> m
                    | None \<Rightarrow> (case resp_response r of Some t \<Rightarrow> t | None \<Rightarrow> []))"
  defines "w \<equiv> handleSubmit_resolved now' (Some r) sending"
  defines "k \<equiv> length (intervals sending)"
  defines "frame \<equiv> \<lambda>j. (interval_fires k ^^ j) w"
  defines "final \<equiv> timeout_fires (length (timeouts sending)) (frame (Suc (length full)))"
  shows "intervals sending = intervals st \<and> timeouts sending = timeouts st
    \<and> streamingContent sending = streamingContent st
    \<and> intervals w = intervals sending @
          [\<lparr>iv_text = full, iv_i = 0, iv_delay = 8, iv_cleared = False\<rparr>]
    \<and> (\<forall>j \<le> length full.
          streamingContent (frame j) = take j full
          \<and> prefix (streamingContent (frame j)) full
          \<and> length (streamingContent (frame j)) = j
          \<and> displayed (frame j) (last (messages (frame j))) = take j full)
    \<and> role (last (messages final)) = Assistant
    \<and> content (last (messages final)) = full
    \<and> displayed final (last (messages final)) = full
    \<and> (\<forall>(s :: ChatInterface) n i d.
          n < length (intervals s)
          \<and> intervals s ! n = \<lparr>iv_text = full, iv_i = i, iv_delay = d, iv_cleared = False\<rparr>
          \<and> i < length full \<longrightarrow>
            streamingContent (interval_fires n s) = take (Suc i) full
            \<and> iv_i (intervals (interval_fires n s) ! n) = Suc i)
    \<and> (\<forall>(s :: ChatInterface) n m.
          n < length (timeouts s) \<and> timeouts s ! n = last (timeouts w)
          \<and> m \<in> set (messages (timeout_fires n s)) \<and> msg_id m = msg_id (last (messages w))
          \<longrightarrow> content m = full)
    \<and> timeouts w = timeouts sending @
          [\<lparr>to_id = msg_id (last (messages w)), to_text = full,
            to_delay = length full * 30 + 100, to_fired = False\<rparr>]"
proof -
  let ?a = "\<lparr>msg_id = show_int (fst now' + 1), role = Assistant, content = [],
              timestamp = snd now'\<rparr>"
  let ?tm = "\<lambda>i c. \<lparr>iv_text = full, iv_i = i, iv_delay = 8, iv_cleared = c\<rparr>"
  let ?to = "\<lparr>to_id = show_int (fst now' + 1), to_text = full,
              to_delay = length full * 30 + 100, to_fired = False\<rparr>"
  have w: "w = sending\<lparr>messages := messages sending @ [?a],
        streamingContent := [],
        intervals := intervals sending @ [typewriterEffect full],
        timeouts := timeouts sending @ [?to],
        isLoading := False\<rparr>"
    unfolding w_def full_def responseText_def [symmetric] by (rule resolved_state)
  have k: "k < length (intervals w)" and at_k: "intervals w ! k = ?tm 0 False"
    and empty: "streamingContent w = []"
    by (simp_all add: w k_def typewriterEffect_def)
  have frames: "frame j = w\<lparr>streamingContent := take j full,
      intervals := (intervals w)[k := ?tm j False]\<rparr>" if "j \<le> length full" for j
    unfolding frame_def using reveal_frames [OF k at_k empty that] .
  have shown: "streamingContent (frame j) = take j full
      \<and> prefix (streamingContent (frame j)) full
      \<and> length (streamingContent (frame j)) = j
      \<and> displayed (frame j) (last (messages (frame j))) = take j full"
    if "j \<le> length full" for j
    using that by (simp add: frames [OF that] w displayed_def take_is_prefix)
  have cleared: "frame (Suc (length full)) = w\<lparr>streamingContent := full,
      intervals := (intervals w)[k := ?tm (length full) True]\<rparr>"
    unfolding frame_def using reveal_complete [OF k at_k empty] .
  have final: "messages final = map (\<lambda>msg. if msg_id msg = show_int (fst now' + 1)
        then msg\<lparr>content := full\<rparr> else msg) (messages sending @ [?a])
      \<and> streamingContent final = []"
    by (simp add: final_def cleared w timeout_fires_def Let_def)
  have tick: "streamingContent (interval_fires n s) = take (Suc i) full
      \<and> iv_i (intervals (interval_fires n s) ! n) = Suc i"
    if "n < length (intervals s)"
      and "intervals s ! n = \<lparr>iv_text = full, iv_i = i, iv_delay = d, iv_cleared = False\<rparr>"
      and "i < length full"
    for s :: ChatInterface and n i d
    using that(1) by (simp add: interval_fires_reveal [OF that])
  have "last (timeouts w) = ?to" and "msg_id (last (messages w)) = show_int (fst now' + 1)"
    by (simp_all add: w)
  then have written: "content m = full"
    if "n < length (timeouts s)" and "timeouts s ! n = last (timeouts w)"
      and "m \<in> set (messages (timeout_fires n s))" and "msg_id m = msg_id (last (messages w))"
    for s :: ChatInterface and n m
    using timeout_fires_content [of n s m] that by simp
  have "intervals sending = intervals st \<and> timeouts sending = timeouts st
      \<and> streamingContent sending = streamingContent st"
    unfolding sending_def by (rule handleSubmit_timers)
  moreover have "intervals w = intervals sending @
          [\<lparr>iv_text = full, iv_i = 0, iv_delay = 8, iv_cleared = False\<rparr>]"
    by (simp add: w typewriterEffect_def)
  moreover have "role (last (messages final)) = Assistant
      \<and> content (last (messages final)) = full
      \<and> displayed final (last (messages final)) = full"
    by (simp add: final displayed_def)
  moreover have "\<forall>j \<le> length full.
          streamingContent (frame j) = take j full
          \<and> prefix (streamingContent (frame j)) full
          \<and> length (streamingContent (frame j)) = j
          \<and> displayed (frame j) (last (messages (frame j))) = take j full"
    using shown by blast
  moreover have "\<forall>(s :: ChatInterface) n i d.
          n < length (intervals s)
          \<and> intervals s ! n = \<lparr>iv_text = full, iv_i = i, iv_delay = d, iv_cleared = False\<rparr>
          \<and> i < length full \<longrightarrow>
            streamingContent (interval_fires n s) = take (Suc i) full
            \<and> iv_i (intervals (interval_fires n s) ! n) = Suc i"
    using tick by blast
  moreover have "\<forall>(s :: ChatInterface) n m.
          n < length (timeouts s) \<and> timeouts s ! n = last (timeouts w)
          \<and> m \<in> set (messages (timeout_fires n s)) \<and> msg_id m = msg_id (last (messages w))
          \<longrightarrow> content m = full"
    using written by blast
  moreover have "timeouts w = timeouts sending @
          [\<lparr>to_id = msg_id (last (messages w)), to_text = full,
            to_delay = length full * 30 + 100, to_fired = False\<rparr>]"
    by (simp add: w)
  ultimately show ?thesis
    by - (elim conjE, intro conjI, assumption+)
qed

text \<open>
  The witness: \<open>hi\<close> is submitted from a fresh view and answered with \<open>ok\<close>. The first
  firing shows \<open>o\<close>; after three firings and the timeout the content is \<open>ok\<close>.
\<close>

theorem reveal_is_cosmetic_witness:
  "streamingContent ((interval_fires 0 ^^ 1)
      (handleSubmit_resolved (2000, 2000)
         (Some \<lparr>resp_message = Some (js ''ok''), resp_response = None\<rparr>)
         (handleSubmit (1000, 1000) (setMessage (js ''hi'') initial)))) = js ''o''
   \<and> content (last (messages (timeout_fires 0 ((interval_fires 0 ^^ 3)
      (handleSubmit_resolved (2000, 2000)
         (Some \<lparr>resp_message = Some (js ''ok''), resp_response = None\<rparr>)
         (handleSubmit (1000, 1000) (setMessage (js ''hi'') initial))))))) = js ''ok''"
proof -
  let ?r = "\<lparr>resp_message = Some (js ''ok''), resp_response = None\<rparr>"
  let ?st = "setMessage (js ''hi'') initial"
  note T = reveal_is_cosmetic [where st = ?st and now = "(1000, 1000)" and now' = "(2000, 2000)"
      and r = ?r]
  have full: "(case resp_message ?r of Some m \<Rightarrow> m
                | None \<Rightarrow> (case resp_response ?r of Some t \<Rightarrow> t | None \<Rightarrow> [])) = js ''ok''"
    by simp
  have len: "Suc (length (js ''ok'')) = 3"
    by (simp add: js_def)
  have k: "length (intervals (handleSubmit (1000, 1000) ?st)) = 0"
    and kt: "length (timeouts (handleSubmit (1000, 1000) ?st)) = 0"
    by (simp_all add: handleSubmit_timers setMessage_def initial_def)
  have tk: "take 1 (js ''ok'') = js ''o''"
    by (simp add: js_def)
  have one: "1 \<le> length (case resp_message ?r of Some m \<Rightarrow> m
                | None \<Rightarrow> (case resp_response ?r of Some t \<Rightarrow> t | None \<Rightarrow> []))"
    by (simp add: js_def)
  note F = T [THEN conjunct2, THEN conjunct2, THEN conjunct2, THEN conjunct2, THEN conjunct1,
      rule_format, OF one, THEN conjunct1]
  note G = T [THEN conjunct2, THEN conjunct2, THEN conjunct2, THEN conjunct2, THEN conjunct2,
      THEN conjunct2, THEN conjunct1]
  from F have first: "streamingContent ((interval_fires 0 ^^ 1)
      (handleSubmit_resolved (2000, 2000) (Some ?r) (handleSubmit (1000, 1000) ?st))) = js ''o''"
    unfolding k full tk .
  from G have last: "content (last (messages (timeout_fires 0 ((interval_fires 0 ^^ 3)
      (handleSubmit_resolved (2000, 2000) (Some ?r) (handleSubmit (1000, 1000) ?st))))))
        = js ''ok''"
    unfolding k kt full len .
  from first last show ?thesis by (rule conjI)
qed

subsection \<open>Two turns and one streaming buffer\<close>

text \<open>The states of the run of two turns, field by field.\<close>

lemma first_turn_revealed_state:
  "first_turn_revealed =
     initial\<lparr>messages :=
         [\<lparr>msg_id = show_int 1000, role = User, content = js ''hi'', timestamp = 1000\<rparr>,
          \<lparr>msg_id = show_int 2001, role = Assistant, content = [], timestamp = 2000\<rparr>],
       requests := [sendMessage
         [JObject [(''role'', JString (js ''user'')), (''content'', JString (js ''hi''))]]
         (Some (js ''default''))],
       streamingContent := js ''abc'',
       intervals := [\<lparr>iv_text = js ''abc'', iv_i = 3, iv_delay = 8, iv_cleared = True\<rparr>],
       timeouts := [\<lparr>to_id = show_int 2001, to_text = js ''abc'', to_delay = 190,
                      to_fired = False\<rparr>]\<rparr>"
proof -
  let ?r = "\<lparr>resp_message = Some (js ''abc''), resp_response = None\<rparr>"
  let ?w = "handleSubmit_resolved (2000, 2000) (Some ?r)
              (handleSubmit (1000, 1000) (setMessage (js ''hi'') initial))"
  have full: "responseText ?r = js ''abc''"
    by (simp add: responseText_def)
  have len: "length (js ''abc'') = 3"
    by (simp add: js_def)
  have w: "?w = initial\<lparr>messages :=
         [\<lparr>msg_id = show_int 1000, role = User, content = js ''hi'', timestamp = 1000\<rparr>,
          \<lparr>msg_id = show_int 2001, role = Assistant, content = [], timestamp = 2000\<rparr>],
       requests := [sendMessage
         [JObject [(''role'', JString (js ''user'')), (''content'', JString (js ''hi''))]]
         (Some (js ''default''))],
       streamingContent := [],
       intervals := [\<lparr>iv_text = js ''abc'', iv_i = 0, iv_delay = 8, iv_cleared = False\<rparr>],
       timeouts := [\<lparr>to_id = show_int 2001, to_text = js ''abc'', to_delay = 190,
                      to_fired = False\<rparr>]\<rparr>"
    unfolding resolved_state handleSubmit_ready [OF typed_hi_ready typed_hi(2)] full
    by (simp add: typed_hi trim_hi len typewriterEffect_def setMessage_def initial_def)
  have "first_turn_revealed = (interval_fires 0 ^^ Suc (length (js ''abc''))) ?w"
    by (simp add: first_turn_revealed_def len)
  also have "\<dots> = ?w\<lparr>streamingContent := js ''abc'',
        intervals := (intervals ?w)
          [0 := \<lparr>iv_text = js ''abc'', iv_i = length (js ''abc''), iv_delay = 8,
                  iv_cleared = True\<rparr>]\<rparr>"
    by (rule reveal_complete; unfold w) (simp_all add: initial_def)
  finally show ?thesis
    unfolding w by (simp add: len initial_def)
qed


lemma first_turn_revealed_fields:
  "messages first_turn_revealed =
     [\<lparr>msg_id = show_int 1000, role = User, content = js ''hi'', timestamp = 1000\<rparr>,
      \<lparr>msg_id = show_int 2001, role = Assistant, content = [], timestamp = 2000\<rparr>]"
  "intervals first_turn_revealed =
     [\<lparr>iv_text = js ''abc'', iv_i = 3, iv_delay = 8, iv_cleared = True\<rparr>]"
  "timeouts first_turn_revealed =
     [\<lparr>to_id = show_int 2001, to_text = js ''abc'', to_delay = 190, to_fired = False\<rparr>]"
  "\<not> isLoading first_turn_revealed"
  by (simp_all add: first_turn_revealed_state initial_def)

lemma second_turn_first_frame_fields:
  "messages second_turn_first_frame =
     [\<lparr>msg_id = show_int 1000, role = User, content = js ''hi'', timestamp = 1000\<rparr>,
      \<lparr>msg_id = show_int 2001, role = Assistant, content = [], timestamp = 2000\<rparr>,
      \<lparr>msg_id = show_int 2050, role = User, content = js ''yo'', timestamp = 2050\<rparr>,
      \<lparr>msg_id = show_int 2101, role = Assistant, content = [], timestamp = 2100\<rparr>]"
  "streamingContent second_turn_first_frame = js ''x''"
  "timeouts second_turn_first_frame =
     [\<lparr>to_id = show_int 2001, to_text = js ''abc'', to_delay = 190, to_fired = False\<rparr>,
      \<lparr>to_id = show_int 2101, to_text = js ''xy'', to_delay = 160, to_fired = False\<rparr>]"
  "intervals second_turn_first_frame =
     [\<lparr>iv_text = js ''abc'', iv_i = 3, iv_delay = 8, iv_cleared = True\<rparr>,
      \<lparr>iv_text = js ''xy'', iv_i = 1, iv_delay = 8, iv_cleared = False\<rparr>]"
proof -
  let ?r = "\<lparr>resp_message = Some (js ''xy''), resp_response = None\<rparr>"
  let ?typed = "setMessage (js ''yo'') first_turn_revealed"
  let ?w = "handleSubmit_resolved (2100, 2100) (Some ?r) (handleSubmit (2050, 2050) ?typed)"
  have yo: "trim (js ''yo'') = js ''yo''"
    by (simp add: trim_def js_def isWhiteSpace_def)
  have full: "responseText ?r = js ''xy''"
    by (simp add: responseText_def)
  have len: "length (js ''xy'') = 2"
    by (simp add: js_def)
  have typed: "message ?typed = js ''yo''" "\<not> isLoading ?typed"
    "messages ?typed = messages first_turn_revealed"
    "intervals ?typed = intervals first_turn_revealed"
    "timeouts ?typed = timeouts first_turn_revealed"
    by (simp_all add: setMessage_def first_turn_revealed_fields)
  have ready: "trim (message ?typed) \<noteq> []"
    unfolding typed yo by (simp add: js_def)
  have w: "messages ?w = messages first_turn_revealed @
        [\<lparr>msg_id = show_int 2050, role = User, content = js ''yo'', timestamp = 2050\<rparr>,
         \<lparr>msg_id = show_int 2101, role = Assistant, content = [], timestamp = 2100\<rparr>]"
    "streamingContent ?w = []"
    "intervals ?w = intervals first_turn_revealed @
        [\<lparr>iv_text = js ''xy'', iv_i = 0, iv_delay = 8, iv_cleared = False\<rparr>]"
    "timeouts ?w = timeouts first_turn_revealed @
        [\<lparr>to_id = show_int 2101, to_text = js ''xy'', to_delay = 160, to_fired = False\<rparr>]"
    unfolding resolved_state handleSubmit_ready [OF ready typed(2)] full
    by (simp_all add: typed yo len typewriterEffect_def)
  have fire: "second_turn_first_frame =
      ?w\<lparr>streamingContent := take (Suc 0) (js ''xy''),
         intervals := (intervals ?w)
           [1 := \<lparr>iv_text = js ''xy'', iv_i = Suc 0, iv_delay = 8, iv_cleared = False\<rparr>]\<rparr>"
  proof -
    have "1 < length (intervals ?w)"
      and "intervals ?w ! 1 = \<lparr>iv_text = js ''xy'', iv_i = 0, iv_delay = 8, iv_cleared = False\<rparr>"
      and "0 < length (js ''xy'')"
      unfolding w first_turn_revealed_fields by (simp_all add: len)
    then show ?thesis
      unfolding second_turn_first_frame_def by (rule interval_fires_reveal)
  qed
  show "messages second_turn_first_frame =
     [\<lparr>msg_id = show_int 1000, role = User, content = js ''hi'', timestamp = 1000\<rparr>,
      \<lparr>msg_id = show_int 2001, role = Assistant, content = [], timestamp = 2000\<rparr>,
      \<lparr>msg_id = show_int 2050, role = User, content = js ''yo'', timestamp = 2050\<rparr>,
      \<lparr>msg_id = show_int 2101, role = Assistant, content = [], timestamp = 2100\<rparr>]"
    unfolding fire by (simp add: w first_turn_revealed_fields)
  show "streamingContent second_turn_first_frame = js ''x''"
    unfolding fire by (simp add: js_def)
  show "timeouts second_turn_first_frame =
     [\<lparr>to_id = show_int 2001, to_text = js ''abc'', to_delay = 190, to_fired = False\<rparr>,
      \<lparr>to_id = show_int 2101, to_text = js ''xy'', to_delay = 160, to_fired = False\<rparr>]"
    unfolding fire by (simp add: w first_turn_revealed_fields)
  show "intervals second_turn_first_frame =
     [\<lparr>iv_text = js ''abc'', iv_i = 3, iv_delay = 8, iv_cleared = True\<rparr>,
      \<lparr>iv_text = js ''xy'', iv_i = 1, iv_delay = 8, iv_cleared = False\<rparr>]"
    unfolding fire by (simp add: w first_turn_revealed_fields)
qed

text \<open>
  C3 as stated fails: what a bubble displays during the reveal need not be a prefix of its
  response. In the run of two turns, the assistant message of the first turn, whose
  timeout still holds its text \<open>abc\<close>, displays \<open>x\<close>, the first frame of the second
  response: its content is still empty, so its bubble shows the streaming buffer, which
  is one for the whole view.
\<close>

theorem bubble_shows_other_turn:
  "role (messages second_turn_first_frame ! 1) = Assistant
   \<and> to_id (timeouts second_turn_first_frame ! 0) = msg_id (messages second_turn_first_frame ! 1)
   \<and> to_text (timeouts second_turn_first_frame ! 0) = js ''abc''
   \<and> \<not> to_fired (timeouts second_turn_first_frame ! 0)
   \<and> iv_cleared (intervals second_turn_first_frame ! 0)
   \<and> displayed second_turn_first_frame (messages second_turn_first_frame ! 1) = js ''x''
   \<and> \<not> prefix (displayed second_turn_first_frame (messages second_turn_first_frame ! 1))
         (js ''abc'')"
  by (simp add: second_turn_first_frame_fields displayed_def) (simp add: js_def)


section \<open>Properties of the ingestion view and endpoint\<close>

text \<open>
  C2, as the code has it: the text is emptied by the X and Clear Text buttons and by a
  successful ingestion. The submit itself and a failed ingestion leave it as it is.
\<close>

theorem ingestion_clears_text_on_success:
  "text_value (handleIngest selectedPersona st) = text_value st
   \<and> text_value (handleIngest_rejected detail st) = text_value st
   \<and> text_value (handleIngest_resolved data st) = []
   \<and> text_value (click_X st) = (if isProcessing st then text_value st else [])
   \<and> text_value (click_ClearText st) = (if isProcessing st then text_value st else [])"
  by (simp add: handleIngest_def handleIngest_rejected_def handleIngest_resolved_def
      click_X_def click_ClearText_def Let_def)

text \<open>The witness: \<open>abc\<close> typed into a fresh view.\<close>

theorem ingestion_clears_text_on_success_witness:
  "text_value (handleIngest_rejected None (textarea_change (js ''abc'') ingestion_initial))
     = js ''abc''
   \<and> text_value (handleIngest_resolved None (textarea_change (js ''abc'') ingestion_initial))
     = []
   \<and> text_value (click_ClearText (textarea_change (js ''abc'') ingestion_initial)) = []"
  using ingestion_clears_text_on_success [of "js ''default''"
      "textarea_change (js ''abc'') ingestion_initial" None None]
  by (simp add: textarea_change_def ingestion_initial_def)

text \<open>
  C2 as stated fails: a successful ingestion of a typed text does not preserve the text.
\<close>

theorem successful_ingestion_clears_text:
  "text_value (handleIngest_resolved
       (Some \<lparr>data_chunks_processed = Some 1, data_chunksCreated = None, data_message = None\<rparr>)
       (handleIngest (js ''default'')
          (textarea_change (js ''Doug likes blue.'') ingestion_initial)))
     \<noteq> text_value (textarea_change (js ''Doug likes blue.'') ingestion_initial)"
  by (simp add: handleIngest_resolved_def handleIngest_def textarea_change_def
      ingestion_initial_def Let_def js_def)

text \<open>
  C5: for a text that is empty or holds white space only, the endpoint fails with
  \<open>ValidationError\<close> and the store is as before; in the client, \<open>handleIngest\<close> on such a
  text shows the error toast and changes nothing else: no request is issued and the state
  hooks keep their values. The Ingest Data button, being disabled then, does not even
  show the toast.
\<close>

theorem blank_text_is_rejected:
  assumes "\<forall>c\<in>set t. isWhiteSpace c"
  shows "ingest sv store t persona meta = (Inl ValidationError, store)
    \<and> handleIngest selectedPersona (st\<lparr>text_value := t\<rparr>) =
        st\<lparr>text_value := t,
           toasts := toasts st @ [toast_error (js ''Please enter some text to ingest'')]\<rparr>
    \<and> requests (handleIngest selectedPersona (st\<lparr>text_value := t\<rparr>)) = requests st
    \<and> click_IngestData selectedPersona (st\<lparr>text_value := t\<rparr>) = st\<lparr>text_value := t\<rparr>"
proof -
  from assms have "trim t = []" by (simp add: trim_empty_iff)
  then show ?thesis by (simp add: ingest_def handleIngest_def click_IngestData_def)
qed

text \<open>The witness: a space and a tab.\<close>

theorem blank_text_is_rejected_witness:
  "ingest stub [] [0x20, 0x09] (js ''default'') None = (Inl ValidationError, [])
   \<and> requests (handleIngest (js ''default'') (ingestion_initial\<lparr>text_value := [0x20, 0x09]\<rparr>))
       = requests ingestion_initial"
proof -
  have "\<forall>c\<in>set [0x20, 0x09 :: 16 word]. isWhiteSpace c"
    by (simp add: isWhiteSpace_def)
  from blank_text_is_rejected [OF this, where sv = stub and store = "[]"
      and persona = "js ''default''" and meta = None and selectedPersona = "js ''default''"
      and st = ingestion_initial]
  show ?thesis by simp
qed








end
